theory Spec2Isabelle
  imports Main
begin

unbundle bit_operations_syntax

section \<open>Go strings and the regular expressions of the validators\<close>

text \<open>
  The validators of \<^verbatim>\<open>bigippg/validators.go\<close> test strings with
  \<^verbatim>\<open>regexp.MatchString\<close>. Go's \<^verbatim>\<open>regexp\<close> reads a string as its sequence of
  code points, so a Go string is modelled by that sequence: a list of runes, a rune being
  its code point. (The values Terraform hands to a validator are well-formed UTF-8, for
  which equality of strings and equality of their rune sequences agree.)
\<close>

type_synonym rune = nat
type_synonym gostring = "rune list"

definition str :: "string \<Rightarrow> gostring" where
  "str s = map of_char s"

text \<open>
  A pattern is given by its syntax tree, as \<^verbatim>\<open>regexp/syntax\<close> parses it, restricted
  to the operators the patterns of the validators use. \<open>CharClass neg items\<close> is a bracket
  expression, negated when \<open>neg\<close> holds; the Perl classes are ASCII-only in Go:
  \<^verbatim>\<open>\d\<close> is \<^verbatim>\<open>[0-9]\<close>, \<^verbatim>\<open>\w\<close> is \<^verbatim>\<open>[0-9A-Za-z_]\<close> and
  \<^verbatim>\<open>\s\<close> is \<^verbatim>\<open>[\t\n\f\r ]\<close>. Without the flag \<^verbatim>\<open>m\<close>, \<^verbatim>\<open>^\<close> and
  \<^verbatim>\<open>$\<close> parse to \<open>BeginText\<close> and \<open>EndText\<close>; with it, to \<open>BeginLine\<close> and
  \<open>EndLine\<close>. With the flag \<^verbatim>\<open>i\<close> a literal is a \<open>LiteralFold\<close>.
\<close>

datatype citem = Single rune | PerlD | PerlW | PerlS

fun citem_has :: "citem \<Rightarrow> rune \<Rightarrow> bool" where
  "citem_has (Single r) c = (c = r)"
| "citem_has PerlD c = (48 \<le> c \<and> c \<le> 57)"
| "citem_has PerlW c =
     (48 \<le> c \<and> c \<le> 57 \<or> 65 \<le> c \<and> c \<le> 90 \<or> c = 95 \<or> 97 \<le> c \<and> c \<le> 122)"
| "citem_has PerlS c = (c = 9 \<or> c = 10 \<or> c = 12 \<or> c = 13 \<or> c = 32)"

definition in_class :: "bool \<Rightarrow> citem list \<Rightarrow> rune \<Rightarrow> bool" where
  "in_class neg items c = (list_ex (\<lambda>i. citem_has i c) items \<noteq> neg)"

datatype regex =
    Literal gostring
  | LiteralFold gostring
  | CharClass bool "citem list"
  | AnyCharNotNL
  | BeginText
  | EndText
  | BeginLine
  | EndLine
  | Plus regex
  | Concat regex regex
  | Alternate regex regex
  | Capture regex

text \<open>
  Case folding is Unicode simple folding (\<^verbatim>\<open>unicode.SimpleFold\<close>). \<open>fold_orbit r\<close>
  lists the runes that fold together with an ASCII rune \<open>r\<close>: a letter and its other case,
  and the two non-ASCII runes that fold to ASCII letters, the Kelvin sign U+212A (with
  \<^verbatim>\<open>k\<close>) and the long s U+017F (with \<^verbatim>\<open>s\<close>). The patterns are ASCII.
\<close>

definition fold_orbit :: "rune \<Rightarrow> rune list" where
  "fold_orbit r =
     (if 97 \<le> r \<and> r \<le> 122 then [r, r - 32]
      else if 65 \<le> r \<and> r \<le> 90 then [r, r + 32]
      else [r])
     @ (if r = 107 \<or> r = 75 then [8490] else [])
     @ (if r = 115 \<or> r = 83 then [383] else [])"

definition fold_eq :: "rune \<Rightarrow> rune \<Rightarrow> bool" where
  "fold_eq r c = (c \<in> set (fold_orbit r))"

text \<open>
  A position in the text is the rune before it (\<open>None\<close> at the start of the text) and the
  text from it on: what the anchors look at. \<open>run re st\<close> lists the positions at which a
  match of \<open>re\<close> that starts at \<open>st\<close> can end. An iteration of \<open>Plus\<close> that consumes
  nothing ends where it started, so only iterations that consume something are repeated.
\<close>

type_synonym pos = "rune option \<times> gostring"

fun eat :: "(rune \<Rightarrow> bool) \<Rightarrow> pos \<Rightarrow> pos list" where
  "eat P (p, []) = []"
| "eat P (p, c # cs) = (if P c then [(Some c, cs)] else [])"

fun eat_literal :: "(rune \<Rightarrow> rune \<Rightarrow> bool) \<Rightarrow> gostring \<Rightarrow> pos \<Rightarrow> pos list" where
  "eat_literal eq [] st = [st]"
| "eat_literal eq (r # rs) (p, []) = []"
| "eat_literal eq (r # rs) (p, c # cs) =
     (if eq r c then eat_literal eq rs (Some c, cs) else [])"

fun run :: "regex \<Rightarrow> pos \<Rightarrow> pos list" where
  "run (Literal w) st = eat_literal (=) w st"
| "run (LiteralFold w) st = eat_literal fold_eq w st"
| "run (CharClass neg items) st = eat (in_class neg items) st"
| "run AnyCharNotNL st = eat (\<lambda>c. c \<noteq> 10) st"
| "run BeginText st = (if fst st = None then [st] else [])"
| "run EndText st = (if snd st = [] then [st] else [])"
| "run BeginLine st = (if fst st = None \<or> fst st = Some 10 then [st] else [])"
| "run EndLine st = (case snd st of [] \<Rightarrow> [st] | c # cs \<Rightarrow> if c = 10 then [st] else [])"
| "run (Plus r) st =
     concat (map (\<lambda>st'. st' # (if length (snd st') < length (snd st)
                                 then run (Plus r) st' else []))
                 (run r st))"
| "run (Concat a b) st = concat (map (run b) (run a st))"
| "run (Alternate a b) st = run a st @ run b st"
| "run (Capture r) st = run r st"

text \<open>
  \<^verbatim>\<open>regexp.MatchString\<close> reports whether the text contains any match of the pattern:
  a match may start at any position.
\<close>

fun search :: "regex \<Rightarrow> rune option \<Rightarrow> gostring \<Rightarrow> bool" where
  "search re p [] = (run re (p, []) \<noteq> [])"
| "search re p (c # cs) = (run re (p, c # cs) \<noteq> [] \<or> search re (Some c) cs)"

definition MatchString :: "regex \<Rightarrow> gostring \<Rightarrow> bool" where
  "MatchString re s = search re None s"

subsection \<open>The patterns\<close>

text \<open>The bracket expressions \<^verbatim>\<open>[\w_\-.]\<close>, \<^verbatim>\<open>[\w_\-.:]\<close> and \<^verbatim>\<open>\d\<close>.\<close>

definition cls_partition :: regex where
  "cls_partition =
     CharClass False [PerlW, Single (of_char CHR ''_''), Single (of_char CHR ''-''),
                      Single (of_char CHR ''.'')]"

definition cls_name :: regex where
  "cls_name =
     CharClass False [PerlW, Single (of_char CHR ''_''), Single (of_char CHR ''-''),
                      Single (of_char CHR ''.''), Single (of_char CHR '':'')]"

definition cls_digit :: regex where
  "cls_digit = CharClass False [PerlD]"

text \<open>\<^verbatim>\<open>^/[\w_\-.]+/[\w_\-.:]+$\<close>\<close>

definition re_F5Name :: regex where
  "re_F5Name =
     Concat BeginText (Concat (Literal (str ''/'')) (Concat (Plus cls_partition)
       (Concat (Literal (str ''/'')) (Concat (Plus cls_name) EndText))))"

text \<open>\<^verbatim>\<open>(^/[\w_\-.]+/[\w_\-.:]+/[\w_\-.:]+$)|(^/[\w_\-.]+/[\w_\-.:]+$)\<close>\<close>

definition re_F5NameWithDirectory :: regex where
  "re_F5NameWithDirectory =
     Alternate
       (Capture (Concat BeginText (Concat (Literal (str ''/'')) (Concat (Plus cls_partition)
          (Concat (Literal (str ''/'')) (Concat (Plus cls_name)
          (Concat (Literal (str ''/'')) (Concat (Plus cls_name) EndText))))))))
       (Capture (Concat BeginText (Concat (Literal (str ''/'')) (Concat (Plus cls_partition)
          (Concat (Literal (str ''/'')) (Concat (Plus cls_name) EndText))))))"


text \<open>\<^verbatim>\<open>^\/[\w_\-.]+\/[\w_\-.:]+.\d+$\<close> and \<^verbatim>\<open>^[\w_\-.]+:\d+$\<close>\<close>

definition re_PoolMemberPath :: regex where
  "re_PoolMemberPath =
     Concat BeginText (Concat (Literal (str ''/'')) (Concat (Plus cls_partition)
       (Concat (Literal (str ''/'')) (Concat (Plus cls_name)
       (Concat AnyCharNotNL (Concat (Plus cls_digit) EndText))))))"

definition re_PoolMemberAddress :: regex where
  "re_PoolMemberAddress =
     Concat BeginText (Concat (Plus cls_partition)
       (Concat (Literal (str '':'')) (Concat (Plus cls_digit) EndText)))"

text \<open>\<^verbatim>\<open>^enabled$|^disabled$\<close>\<close>

definition re_EnabledDisabled :: regex where
  "re_EnabledDisabled =
     Alternate (Concat BeginText (Concat (Literal (str ''enabled'')) EndText))
               (Concat BeginText (Concat (Literal (str ''disabled'')) EndText))"

text \<open>\<^verbatim>\<open>^required$|^preferred$|^disabled$\<close>\<close>

definition re_ReqPrefDisabled :: regex where
  "re_ReqPrefDisabled =
     Alternate (Concat BeginText (Concat (Literal (str ''required'')) EndText))
    (Alternate (Concat BeginText (Concat (Literal (str ''preferred'')) EndText))
               (Concat BeginText (Concat (Literal (str ''disabled'')) EndText)))"

text \<open>\<^verbatim>\<open>^string$|^ip$|^integer$\<close>\<close>

definition re_DataGroupType :: regex where
  "re_DataGroupType =
     Alternate (Concat BeginText (Concat (Literal (str ''string'')) EndText))
    (Alternate (Concat BeginText (Concat (Literal (str ''ip'')) EndText))
               (Concat BeginText (Concat (Literal (str ''integer'')) EndText)))"

text \<open>
  \<^verbatim>\<open>(?mi)^Utility$|^regkey$\<close> and \<^verbatim>\<open>(?mi)^MANAGED$|^UNMANAGED$|^UNREACHABLE$\<close>:
  the flags hold to the end of the pattern, across the alternatives.
\<close>

definition re_PoolLicenseType :: regex where
  "re_PoolLicenseType =
     Alternate (Concat BeginLine (Concat (LiteralFold (str ''Utility'')) EndLine))
               (Concat BeginLine (Concat (LiteralFold (str ''regkey'')) EndLine))"

definition re_AssignmentType :: regex where
  "re_AssignmentType =
     Alternate (Concat BeginLine (Concat (LiteralFold (str ''MANAGED'')) EndLine))
    (Alternate (Concat BeginLine (Concat (LiteralFold (str ''UNMANAGED'')) EndLine))
               (Concat BeginLine (Concat (LiteralFold (str ''UNREACHABLE'')) EndLine)))"

section \<open>The field validators\<close>

text \<open>
  A validator receives an \<^verbatim>\<open>interface{}\<close>: a \<^verbatim>\<open>*schema.Set\<close>, a
  \<^verbatim>\<open>[]string\<close>, a \<^verbatim>\<open>*[]string\<close>, a \<^verbatim>\<open>string\<close> or a value of another type,
  of which only the name of the type is read. A pointer is given by what it points to.

  An error is the \<^verbatim>\<open>fmt.Errorf\<close> call that builds it, format and arguments, or an
  error of the go-bigip library, given by its message.
\<close>

text \<open>
  A \<^verbatim>\<open>schema.Set\<close> keeps its elements in a map keyed by their hash codes, the codes
  its hash function gives them; two elements with one code are one element to it. A set
  of strings is given by the entries of that map, code and element, in the order in which
  its \<^verbatim>\<open>List\<close> method returns the elements (by code); a code occurs once.
  \<open>Len\<close> counts the entries, \<open>Intersection s other\<close> keeps the entries of \<open>s\<close> whose
  code is a code of \<open>other\<close>.
\<close>

type_synonym schema_set = "(int \<times> gostring) list"

datatype gvalue =
    SchemaSet schema_set
  | StringSlice "gostring list"
  | StringSlicePtr "gostring list"
  | GoString gostring
  | OtherValue string

datatype farg = Quoted gostring | Listed "gostring list" | TypeOf string

datatype goerror = Errorf string "farg list" | External string

datatype panic = TypeAssertion

type_synonym diagnostics = "gostring list \<times> goerror list"

definition Len :: "schema_set \<Rightarrow> nat" where
  "Len s = length s"

definition Intersection :: "schema_set \<Rightarrow> schema_set \<Rightarrow> schema_set" where
  "Intersection s other = filter (\<lambda>(k, v). k \<in> set (map fst other)) s"

definition List :: "schema_set \<Rightarrow> gostring list" where
  "List s = map snd s"

text \<open>
  The hash function of a set of strings is \<^verbatim>\<open>schema.HashString\<close>: the CRC-32
  checksum (IEEE polynomial, \<^verbatim>\<open>crc32.ChecksumIEEE\<close>) of the bytes of the string,
  its UTF-8 encoding, which as a 64-bit \<^verbatim>\<open>int\<close> is never negative.
\<close>

definition utf8 :: "rune \<Rightarrow> int list" where
  "utf8 r =
     (if r < 128 then [int r]
      else if r < 2048 then [192 + int (r div 64), 128 + int (r mod 64)]
      else if r < 65536 then
        [224 + int (r div 4096), 128 + int (r div 64 mod 64), 128 + int (r mod 64)]
      else
        [240 + int (r div 262144), 128 + int (r div 4096 mod 64),
         128 + int (r div 64 mod 64), 128 + int (r mod 64)])"

definition crc32_shift :: "int \<Rightarrow> int" where
  "crc32_shift c = (if odd c then (c div 2) XOR 3988292384 else c div 2)"

definition crc32_update :: "int \<Rightarrow> int \<Rightarrow> int" where
  "crc32_update b c =
     crc32_shift (crc32_shift (crc32_shift (crc32_shift
       (crc32_shift (crc32_shift (crc32_shift (crc32_shift (c XOR b))))))))"

definition ChecksumIEEE :: "int list \<Rightarrow> int" where
  "ChecksumIEEE bs = fold crc32_update bs 4294967295 XOR 4294967295"

definition HashString :: "gostring \<Rightarrow> int" where
  "HashString s = ChecksumIEEE (concat (map utf8 s))"

text \<open>
  Modelled from the spec: \<^verbatim>\<open>setToStringSlice\<close> is defined in another file of the
  package; it reduces a set of strings to an ordered sequence of strings.
\<close>

definition setToStringSlice :: "schema_set \<Rightarrow> gostring list" where
  "setToStringSlice s = List s"

definition validateSetValues :: "schema_set \<Rightarrow> gvalue \<Rightarrow> gostring \<Rightarrow> panic + diagnostics" where
  "validateSetValues valid value field =
     (case value of
        SchemaSet s \<Rightarrow>
          Inr ([], if Len (Intersection valid s) \<noteq> Len s
                   then [Errorf ''%q can only contain %v'' [Quoted field, Listed (List s)]]
                   else [])
      | _ \<Rightarrow> Inl TypeAssertion)"

text \<open>
  The assertion \<^verbatim>\<open>value.(string)\<close> is inside the loop: it is evaluated, and panics on
  a value that is not a string, only when \<open>values\<close> has an element.
\<close>

definition validateStringValue :: "gostring list \<Rightarrow> gvalue \<Rightarrow> gostring \<Rightarrow> panic + diagnostics" where
  "validateStringValue values value field =
     (case value of
        GoString s \<Rightarrow>
          Inr ([], if list_ex (\<lambda>v. v = s) values then []
                   else [Errorf ''%q must be one of %v'' [Quoted field, Listed values]])
      | _ \<Rightarrow>
          if values = []
          then Inr ([], [Errorf ''%q must be one of %v'' [Quoted field, Listed values]])
          else Inl TypeAssertion)"

text \<open>
  The other validators start with the same type switch, which gives the strings to check
  and, for a value of another type, a first error; \<open>who\<close> is the name the message gives.
\<close>

definition type_switch :: "string \<Rightarrow> gvalue \<Rightarrow> gostring list \<times> goerror list" where
  "type_switch who value =
     (case value of
        SchemaSet s \<Rightarrow> (setToStringSlice s, [])
      | StringSlice xs \<Rightarrow> (xs, [])
      | StringSlicePtr xs \<Rightarrow> (xs, [])
      | GoString s \<Rightarrow> ([s], [])
      | OtherValue t \<Rightarrow> ([], [Errorf (''Unknown type %v in '' @ who) [TypeOf t]]))"

text \<open>The loop over the values: every value that does not match appends one error.\<close>

definition check_values :: "regex \<Rightarrow> goerror \<Rightarrow> gostring list \<Rightarrow> goerror list \<Rightarrow> goerror list" where
  "check_values re e values errors =
     fold (\<lambda>v errors. if \<not> MatchString re v then errors @ [e] else errors) values errors"

definition validateF5Name :: "gvalue \<Rightarrow> gostring \<Rightarrow> diagnostics" where
  "validateF5Name value field =
     (case type_switch ''validateF5Name'' value of (values, errors) \<Rightarrow>
        ([], check_values re_F5Name
               (Errorf ''%q must match /Partition/Name and contain letters, numbers or [._-:]. e.g. /Common/my-pool''
                  [Quoted field])
               values errors))"

definition validateF5NameWithDirectory :: "gvalue \<Rightarrow> gostring \<Rightarrow> diagnostics" where
  "validateF5NameWithDirectory value field =
     (case type_switch ''validateF5Name'' value of (values, errors) \<Rightarrow>
        ([], check_values re_F5NameWithDirectory
               (Errorf ''%q must match /Partition/Name or /Partition/Directory/Name  e.g. /Common/my-node or /Common/test/my-node''
                  [Quoted field])
               values errors))"


definition validatePoolMemberName :: "gvalue \<Rightarrow> gostring \<Rightarrow> diagnostics" where
  "validatePoolMemberName value field =
     (case type_switch ''validatePoolMemberName'' value of (values, errors) \<Rightarrow>
        ([], fold (\<lambda>v errors.
               if count_list v (of_char CHR '':'') \<ge> 2 then
                 (if \<not> MatchString re_PoolMemberPath v
                  then errors @ [Errorf ''%q must match /Partition/Node_Name:Port and contain letters, numbers or [:._-]. e.g. /Common/node1:80''
                                   [Quoted field]]
                  else errors)
               else
                 (if \<not> MatchString re_PoolMemberAddress v
                  then errors @ [Errorf ''%q must match Node-address:Port and Node Address is IP/FQDN. e.g. 1.1.1.1:80/www.google.com:80''
                                   [Quoted field]]
                  else errors))
             values errors))"

definition validateEnabledDisabled :: "gvalue \<Rightarrow> gostring \<Rightarrow> diagnostics" where
  "validateEnabledDisabled value field =
     (case type_switch ''validateEnabledDisabled'' value of (values, errors) \<Rightarrow>
        ([], check_values re_EnabledDisabled
               (Errorf ''%q must match as enabled or disabled'' [Quoted field])
               values errors))"

definition validateReqPrefDisabled :: "gvalue \<Rightarrow> gostring \<Rightarrow> diagnostics" where
  "validateReqPrefDisabled value field =
     (case type_switch ''validateReqPrefDisabled'' value of (values, errors) \<Rightarrow>
        ([], check_values re_ReqPrefDisabled
               (Errorf ''%q must match as required, preferred, or disabled'' [Quoted field])
               values errors))"

definition validateDataGroupType :: "gvalue \<Rightarrow> gostring \<Rightarrow> diagnostics" where
  "validateDataGroupType value field =
     (case type_switch ''validateDataGroupType'' value of (values, errors) \<Rightarrow>
        ([], check_values re_DataGroupType
               (Errorf ''%q must match as string, ip, or integer'' [Quoted field])
               values errors))"

definition validatePoolLicenseType :: "gvalue \<Rightarrow> gostring \<Rightarrow> diagnostics" where
  "validatePoolLicenseType value field =
     (case type_switch ''validatePoolLicenseType'' value of (values, errors) \<Rightarrow>
        ([], check_values re_PoolLicenseType
               (Errorf ''%q must match as Utility (or) Regkey'' [Quoted field])
               values errors))"

definition validateAssignmentType :: "gvalue \<Rightarrow> gostring \<Rightarrow> diagnostics" where
  "validateAssignmentType value field =
     (case type_switch ''validatePoolLicenseType'' value of (values, errors) \<Rightarrow>
        ([], check_values re_AssignmentType
               (Errorf ''%q must match as MANAGED/UNMANAGED/UNREACHABLE'' [Quoted field])
               values errors))"

subsection \<open>What the specification says of the rules\<close>



text \<open>
  An F5 object path "must match \<^verbatim>\<open>/Partition/Name\<close>, where Name and Partition use
  only letters, digits, \<^verbatim>\<open>. _ - :\<close>", both segments non-empty.
\<close>

definition letter_or_digit :: "rune \<Rightarrow> bool" where
  "letter_or_digit c = (48 \<le> c \<and> c \<le> 57 \<or> 65 \<le> c \<and> c \<le> 90 \<or> 97 \<le> c \<and> c \<le> 122)"

definition spec_name_char :: "rune \<Rightarrow> bool" where
  "spec_name_char c = (letter_or_digit c \<or> c \<in> set (str ''._-:''))"

definition partition_char :: "rune \<Rightarrow> bool" where
  "partition_char c = (letter_or_digit c \<or> c \<in> set (str ''._-''))"

definition path_form :: "(rune \<Rightarrow> bool) \<Rightarrow> (rune \<Rightarrow> bool) \<Rightarrow> gostring \<Rightarrow> bool" where
  "path_form P N v =
     (\<exists>p n. v = str ''/'' @ p @ str ''/'' @ n \<and> p \<noteq> [] \<and> list_all P p \<and> n \<noteq> [] \<and> list_all N n)"

definition spec_F5Name :: "gostring \<Rightarrow> bool" where
  "spec_F5Name v = path_form spec_name_char spec_name_char v"

text \<open>
  A pool license type is a "case-insensitive match of \<^verbatim>\<open>Utility\<close> or
  \<^verbatim>\<open>regkey\<close>"; \<open>equal_fold u w\<close> compares \<open>u\<close> with the ASCII string \<open>w\<close> as
  \<^verbatim>\<open>strings.EqualFold\<close> does, under simple case folding.
\<close>

definition equal_fold :: "gostring \<Rightarrow> gostring \<Rightarrow> bool" where
  "equal_fold u w = list_all2 fold_eq w u"

definition spec_PoolLicenseType :: "gostring \<Rightarrow> bool" where
  "spec_PoolLicenseType v = (equal_fold v (str ''Utility'') \<or> equal_fold v (str ''regkey''))"

text \<open>
  A whole line of \<open>v\<close>: a part \<open>u\<close> of it that starts at the start of \<open>v\<close> or after a
  line feed, and ends at the end of \<open>v\<close> or before a line feed.
\<close>

definition between_newlines :: "gostring \<Rightarrow> gostring \<Rightarrow> bool" where
  "between_newlines u v =
     (\<exists>pre post. v = pre @ u @ post \<and> (pre = [] \<or> last pre = 10)
                 \<and> (post = [] \<or> hd post = 10))"

text \<open>
  The two shapes of a pool member: a host name or address (letters, digits,
  \<^verbatim>\<open>. _ -\<close>), a colon and a port; and a path \<^verbatim>\<open>/Partition/Node_Name\<close>, one
  character that is not a line feed, and a port.
\<close>

definition digit :: "rune \<Rightarrow> bool" where
  "digit c = (48 \<le> c \<and> c \<le> 57)"

definition member_address_form :: "gostring \<Rightarrow> bool" where
  "member_address_form v =
     (\<exists>h d. v = h @ str '':'' @ d \<and> h \<noteq> [] \<and> list_all partition_char h
            \<and> d \<noteq> [] \<and> list_all digit d)"

definition member_path_form :: "gostring \<Rightarrow> bool" where
  "member_path_form v =
     (\<exists>p n c d. v = str ''/'' @ p @ str ''/'' @ n @ [c] @ d
            \<and> p \<noteq> [] \<and> list_all partition_char p
            \<and> n \<noteq> [] \<and> list_all spec_name_char n
            \<and> c \<noteq> 10
            \<and> d \<noteq> [] \<and> list_all digit d)"

section \<open>The session factory\<close>

text \<open>
  \<^verbatim>\<open>Config.Client\<close> calls three functions of the go-bigip library, which are
  parameters here. \<^verbatim>\<open>NewTokenSession\<close> returns a client and an error, and
  \<open>Client\<close> reads the client only when the error is \<^verbatim>\<open>nil\<close>: its outcome is the
  error (\<open>Inl\<close>) or the session it built (\<open>Inr\<close>). \<^verbatim>\<open>NewSession\<close> returns the
  session it built. \<^verbatim>\<open>SelfIPs\<close> returns a pointer to the list of the device's self
  IPs and an error, either of which may be \<^verbatim>\<open>nil\<close> (\<open>None\<close>); the list behind a
  pointer may be empty.

  \<open>Client\<close> returns its two results and the trace of what it did, in order: the lines it
  logged and the library calls it made.
\<close>

record 'o Config =
  Address :: gostring
  Port :: gostring
  Username :: gostring
  Password :: gostring
  LoginReference :: gostring
  ConfigOptions :: 'o

record ('h, 't, 'o) bigip =
  NewTokenSession :: "gostring \<Rightarrow> gostring \<Rightarrow> gostring \<Rightarrow> gostring \<Rightarrow> gostring \<Rightarrow> 'o
                      \<Rightarrow> goerror + 'h"
  NewSession :: "gostring \<Rightarrow> gostring \<Rightarrow> gostring \<Rightarrow> gostring \<Rightarrow> 'o \<Rightarrow> 'h"
  SelfIPs :: "'h \<Rightarrow> 't list option \<times> goerror option"

datatype 'h event =
    Println string
  | Printf string "goerror list"
  | Call_NewTokenSession
  | Call_NewSession
  | Call_SelfIPs 'h

definition validateConnection ::
  "('h, 't, 'o) bigip \<Rightarrow> 'h \<Rightarrow> goerror option \<times> 'h event list" where
  "validateConnection lib client =
     (case SelfIPs lib client of (t, err) \<Rightarrow>
        (case err of
           Some e \<Rightarrow>
             (Some e,
              [Call_SelfIPs client,
               Printf ''[ERROR] Connection to BigIP device could not have been validated: %v '' [e]])
         | None \<Rightarrow>
             (case t of
                None \<Rightarrow>
                  (None,
                   [Call_SelfIPs client,
                    Printf ''[WARN] Could not validate connection to BigIP'' []])
              | Some x \<Rightarrow> (None, [Call_SelfIPs client]))))"

definition Client ::
  "('h, 't, 'o) bigip \<Rightarrow> 'o Config \<Rightarrow> ('h option \<times> goerror option) \<times> 'h event list" where
  "Client lib c =
     (if Address c \<noteq> [] \<and> Username c \<noteq> [] \<and> Password c \<noteq> [] then
        (let info = Println ''[INFO] Initializing BigIP connection'';
             (session, log1) =
               (if LoginReference c \<noteq> [] then
                  (case NewTokenSession lib (Address c) (Port c) (Username c) (Password c)
                          (LoginReference c) (ConfigOptions c) of
                     Inl err \<Rightarrow>
                       (Inl err,
                        [Call_NewTokenSession,
                         Printf ''[ERROR] Error creating New Token Session %s '' [err]])
                   | Inr client \<Rightarrow> (Inr client, [Call_NewTokenSession]))
                else
                  (Inr (NewSession lib (Address c) (Port c) (Username c) (Password c)
                          (ConfigOptions c)),
                   [Call_NewSession]))
         in case session of
              Inl err \<Rightarrow> ((None, Some err), info # log1)
            | Inr client \<Rightarrow>
                (case validateConnection lib client of
                   (None, log2) \<Rightarrow> ((Some client, None), info # log1 @ log2)
                 | (Some err, log2) \<Rightarrow> ((None, Some err), info # log1 @ log2)))
      else
        ((None, Some (Errorf ''BigIP provider requires address, username and password'' [])),
         []))"

text \<open>A warning is a logged line at the level \<^verbatim>\<open>[WARN]\<close>.\<close>

fun is_warning :: "'h event \<Rightarrow> bool" where
  "is_warning (Println l) = (take 6 l = ''[WARN]'')"
| "is_warning (Printf l args) = (take 6 l = ''[WARN]'')"
| "is_warning e = False"

text \<open>
  The session that authentication gives for a configuration: the token session when a
  login reference is set and the token login returns no error, the basic session when
  none is set.
\<close>

definition authenticated :: "('h, 't, 'o) bigip \<Rightarrow> 'o Config \<Rightarrow> 'h \<Rightarrow> bool" where
  "authenticated lib c h =
     (if LoginReference c \<noteq> []
      then NewTokenSession lib (Address c) (Port c) (Username c) (Password c)
             (LoginReference c) (ConfigOptions c) = Inr h
      else NewSession lib (Address c) (Port c) (Username c) (Password c) (ConfigOptions c) = h)"

section \<open>Facts about matching\<close>

text \<open>\<open>after p w\<close> is the rune before the position reached from \<open>p\<close> by reading \<open>w\<close>.\<close>

definition after :: "rune option \<Rightarrow> gostring \<Rightarrow> rune option" where
  "after p w = (if w = [] then p else Some (last w))"

text \<open>
  The equation of \<open>Plus\<close> is applied by hand where it is needed: it unfolds
  \<open>run (Plus r)\<close> in terms of itself.
\<close>

declare run.simps(9) [simp del]

lemma after_Nil [simp]: "after p [] = p" by (simp add: after_def)
lemma after_Cons [simp]: "after p (c # w) = after (Some c) w" by (simp add: after_def)
lemma after_append [simp]: "after p (u @ w) = after (after p u) w" by (simp add: after_def)
lemma after_None_iff [simp]: "(after None w = None) = (w = [])" by (simp add: after_def)

lemma search_iff:
  "search re p s = (\<exists>pre rest. s = pre @ rest \<and> run re (after p pre, rest) \<noteq> [])"
proof (induction s arbitrary: p)
  case Nil
  show ?case by simp
next
  case (Cons c cs)
  show ?case
  proof
    assume "search re p (c # cs)"
    then consider "run re (p, c # cs) \<noteq> []" | "search re (Some c) cs" by auto
    then show "\<exists>pre rest. c # cs = pre @ rest \<and> run re (after p pre, rest) \<noteq> []"
    proof cases
      case 1
      then have "c # cs = [] @ (c # cs) \<and> run re (after p [], c # cs) \<noteq> []" by simp
      then show ?thesis by blast
    next
      case 2
      then obtain pre rest where "cs = pre @ rest" "run re (after (Some c) pre, rest) \<noteq> []"
        using Cons.IH by blast
      then have "c # cs = (c # pre) @ rest \<and> run re (after p (c # pre), rest) \<noteq> []" by simp
      then show ?thesis by blast
    qed
  next
    assume "\<exists>pre rest. c # cs = pre @ rest \<and> run re (after p pre, rest) \<noteq> []"
    then obtain pre rest where h: "c # cs = pre @ rest" "run re (after p pre, rest) \<noteq> []" by blast
    show "search re p (c # cs)"
    proof (cases pre)
      case Nil
      with h have "run re (p, c # cs) \<noteq> []" by simp
      then show ?thesis by simp
    next
      case (Cons d pre')
      with h have "cs = pre' @ rest" "run re (after (Some c) pre', rest) \<noteq> []" by auto
      then have "search re (Some c) cs" using Cons.IH by blast
      then show ?thesis by simp
    qed
  qed
qed

lemma MatchString_BeginText:
  "MatchString (Concat BeginText r) s = (run r (None, s) \<noteq> [])"
proof -
  have "run (Concat BeginText r) (q, rest) \<noteq> [] \<longleftrightarrow> q = None \<and> run r (None, rest) \<noteq> []" for q rest
    by simp
  then show ?thesis
    unfolding MatchString_def search_iff by auto
qed

lemma MatchString_Alternate:
  "MatchString (Alternate a b) s = (MatchString a s \<or> MatchString b s)"
  unfolding MatchString_def search_iff by auto

lemma mem_eat_literal:
  "st' \<in> set (eat_literal eq w (p, s)) \<longleftrightarrow>
     (\<exists>u s'. s = u @ s' \<and> list_all2 eq w u \<and> st' = (after p u, s'))"
proof (induction w arbitrary: p s)
  case Nil
  show ?case by auto
next
  case (Cons r rs)
  show ?case
  proof (cases s)
    case Nil
    then show ?thesis by (auto simp: list_all2_Cons1)
  next
    case (Cons c cs)
    show ?thesis
      unfolding Cons
      by (auto simp: Cons.IH list_all2_Cons1)
  qed
qed

lemma mem_Literal:
  "st' \<in> set (run (Literal w) (p, s)) \<longleftrightarrow> (\<exists>s'. s = w @ s' \<and> st' = (after p w, s'))"
  by (auto simp: mem_eat_literal list.rel_eq)

lemma mem_LiteralFold:
  "st' \<in> set (run (LiteralFold w) (p, s)) \<longleftrightarrow>
     (\<exists>u s'. s = u @ s' \<and> list_all2 fold_eq w u \<and> st' = (after p u, s'))"
  by (simp add: mem_eat_literal)

lemma mem_eat:
  "st' \<in> set (eat P (p, s)) \<longleftrightarrow> (\<exists>c s'. s = c # s' \<and> P c \<and> st' = (Some c, s'))"
  by (cases s) auto

lemma mem_Plus_eat:
  assumes r: "\<And>st. run r st = eat P st"
  shows "st' \<in> set (run (Plus r) (p, s)) \<longleftrightarrow>
     (\<exists>w s'. s = w @ s' \<and> w \<noteq> [] \<and> list_all P w \<and> st' = (Some (last w), s'))"
proof (induction s arbitrary: p)
  case Nil
  have "run (Plus r) (p, []) = []"
    by (subst run.simps(9)) (simp add: r)
  then show ?case by simp
next
  case (Cons c cs)
  show ?case
  proof (cases "P c")
    case False
    then have "run (Plus r) (p, c # cs) = []"
      by (subst run.simps(9)) (simp add: r)
    moreover have "\<not> (\<exists>w s'. c # cs = w @ s' \<and> w \<noteq> [] \<and> list_all P w \<and> st' = (Some (last w), s'))"
      using False by (auto simp: Cons_eq_append_conv)
    ultimately show ?thesis by simp
  next
    case True
    have "run (Plus r) (p, c # cs) = (Some c, cs) # run (Plus r) (Some c, cs)"
      using True by (subst run.simps(9)) (simp add: r)
    then have "st' \<in> set (run (Plus r) (p, c # cs)) \<longleftrightarrow>
            st' = (Some c, cs) \<or> st' \<in> set (run (Plus r) (Some c, cs))"
      by simp
    also have "\<dots> \<longleftrightarrow> st' = (Some c, cs) \<or>
        (\<exists>w s'. cs = w @ s' \<and> w \<noteq> [] \<and> list_all P w \<and> st' = (Some (last w), s'))"
      by (simp only: Cons.IH)
    also have "\<dots> \<longleftrightarrow>
        (\<exists>w s'. c # cs = w @ s' \<and> w \<noteq> [] \<and> list_all P w \<and> st' = (Some (last w), s'))"
      (is "?L \<longleftrightarrow> ?R")
    proof
      assume ?L
      then show ?R
      proof
        assume "st' = (Some c, cs)"
        then have "c # cs = [c] @ cs \<and> [c] \<noteq> [] \<and> list_all P [c] \<and> st' = (Some (last [c]), cs)"
          using True by simp
        then show ?R by blast
      next
        assume "\<exists>w s'. cs = w @ s' \<and> w \<noteq> [] \<and> list_all P w \<and> st' = (Some (last w), s')"
        then obtain w s' where "cs = w @ s'" "w \<noteq> []" "list_all P w" "st' = (Some (last w), s')"
          by blast
        then have "c # cs = (c # w) @ s' \<and> c # w \<noteq> [] \<and> list_all P (c # w)
                   \<and> st' = (Some (last (c # w)), s')"
          using True by simp
        then show ?R by blast
      qed
    next
      assume ?R
      then obtain w s' where h: "c # cs = w @ s'" "w \<noteq> []" "list_all P w" "st' = (Some (last w), s')"
        by blast
      then obtain w' where w: "w = c # w'" "cs = w' @ s'" by (cases w) auto
      show ?L
      proof (cases "w' = []")
        case True
        with h w show ?thesis by simp
      next
        case False
        with h w have "cs = w' @ s' \<and> w' \<noteq> [] \<and> list_all P w' \<and> st' = (Some (last w'), s')"
          by simp
        then show ?thesis by blast
      qed
    qed
    finally show ?thesis .
  qed
qed

lemma mem_Plus_class:
  "st' \<in> set (run (Plus (CharClass neg items)) (p, s)) \<longleftrightarrow>
     (\<exists>w s'. s = w @ s' \<and> w \<noteq> [] \<and> list_all (in_class neg items) w \<and> st' = (Some (last w), s'))"
  by (rule mem_Plus_eat) simp

lemma nonempty_iff: "(xs \<noteq> []) = (\<exists>x. x \<in> set xs)"
  by (cases xs) auto

lemma mem_Concat:
  "st'' \<in> set (run (Concat a b) st) \<longleftrightarrow> (\<exists>st'. st' \<in> set (run a st) \<and> st'' \<in> set (run b st'))"
  by auto

lemma mem_EndText: "st' \<in> set (run EndText st) \<longleftrightarrow> st' = st \<and> snd st = []"
  by auto

lemma mem_CharClass:
  "st' \<in> set (run (CharClass neg items) (p, s)) \<longleftrightarrow>
     (\<exists>c s'. s = c # s' \<and> in_class neg items c \<and> st' = (Some c, s'))"
  by (simp add: mem_eat)

lemma mem_AnyCharNotNL:
  "st' \<in> set (run AnyCharNotNL (p, s)) \<longleftrightarrow> (\<exists>c s'. s = c # s' \<and> c \<noteq> 10 \<and> st' = (Some c, s'))"
  by (simp add: mem_eat)

lemma MatchString_exact_Literal:
  "MatchString (Concat BeginText (Concat (Literal w) EndText)) s = (s = w)"
  unfolding MatchString_BeginText nonempty_iff mem_Concat mem_Literal mem_EndText
  by auto

lemma check_values_single:
  "check_values re e [v] [] = (if MatchString re v then [] else [e])"
  by (simp add: check_values_def)

lemma MatchString_EnabledDisabled:
  "MatchString re_EnabledDisabled v = (v = str ''enabled'' \<or> v = str ''disabled'')"
  unfolding re_EnabledDisabled_def MatchString_Alternate MatchString_exact_Literal ..

lemma in_Literal:
  "st' \<in> set (run (Literal w) st) \<longleftrightarrow> snd st = w @ snd st' \<and> fst st' = after (fst st) w"
  by (cases st, cases st', hypsubst, unfold mem_Literal) auto

lemma in_LiteralFold:
  "st' \<in> set (run (LiteralFold w) st) \<longleftrightarrow>
     (\<exists>u. snd st = u @ snd st' \<and> list_all2 fold_eq w u \<and> fst st' = after (fst st) u)"
  by (cases st, cases st', hypsubst, unfold mem_LiteralFold) auto

lemma in_Plus_class:
  "st' \<in> set (run (Plus (CharClass neg items)) st) \<longleftrightarrow>
     (\<exists>w. snd st = w @ snd st' \<and> w \<noteq> [] \<and> list_all (in_class neg items) w
          \<and> fst st' = Some (last w))"
  by (cases st, cases st', hypsubst, unfold mem_Plus_class) auto

lemma in_CharClass:
  "st' \<in> set (run (CharClass neg items) st) \<longleftrightarrow>
     (\<exists>c. snd st = c # snd st' \<and> in_class neg items c \<and> fst st' = Some c)"
  by (cases st, cases st', hypsubst, unfold mem_CharClass) auto

lemma in_AnyCharNotNL:
  "st' \<in> set (run AnyCharNotNL st) \<longleftrightarrow> (\<exists>c. snd st = c # snd st' \<and> c \<noteq> 10 \<and> fst st' = Some c)"
  by (cases st, cases st', hypsubst, unfold mem_AnyCharNotNL) auto

lemmas in_run = mem_Concat in_Literal in_LiteralFold in_Plus_class in_CharClass in_AnyCharNotNL mem_EndText

lemma in_cls_partition:
  "in_class False [PerlW, Single (of_char CHR ''_''), Single (of_char CHR ''-''),
                      Single (of_char CHR ''.'')] = partition_char"
  by (rule ext) (auto simp: in_class_def partition_char_def letter_or_digit_def str_def)

lemma in_cls_name:
  "in_class False [PerlW, Single (of_char CHR ''_''), Single (of_char CHR ''-''),
                      Single (of_char CHR ''.''), Single (of_char CHR '':'')] = spec_name_char"
  by (rule ext) (auto simp: in_class_def spec_name_char_def letter_or_digit_def str_def)

lemma MatchString_anchored:
  "MatchString (Concat BeginText r) s = (\<exists>st'. st' \<in> set (run r (None, s)))"
  unfolding MatchString_BeginText by (rule nonempty_iff)

lemma MatchString_F5Name:
  "MatchString re_F5Name v = path_form partition_char spec_name_char v"
  unfolding re_F5Name_def cls_partition_def cls_name_def MatchString_anchored
      in_run in_cls_partition in_cls_name path_form_def
  apply (rule iffI)
   apply auto[1]
  apply (elim exE conjE)
  apply simp
  apply blast
  done

lemma in_cls_digit: "in_class False [PerlD] = digit"
  by (rule ext) (simp add: in_class_def digit_def)




lemma MatchString_PoolMemberAddress:
  "MatchString re_PoolMemberAddress v = member_address_form v"
  unfolding re_PoolMemberAddress_def cls_partition_def cls_digit_def MatchString_anchored
      in_run in_cls_partition in_cls_digit member_address_form_def
  apply (rule iffI)
   apply auto[1]
  apply (elim exE conjE)
  apply simp
  apply blast
  done

lemma MatchString_PoolMemberPath:
  "MatchString re_PoolMemberPath v = member_path_form v"
  unfolding re_PoolMemberPath_def cls_partition_def cls_name_def cls_digit_def
      MatchString_anchored in_run in_cls_partition in_cls_name in_cls_digit
      member_path_form_def
  apply (rule iffI)
   apply auto[1]
  apply (elim exE conjE)
  apply simp
  apply blast
  done

lemma MatchString_iff:
  "MatchString re s = (\<exists>pre rest. s = pre @ rest \<and> run re (after None pre, rest) \<noteq> [])"
  unfolding MatchString_def by (rule search_iff)

lemma run_line_fold:
  "(run (Concat BeginLine (Concat (LiteralFold w) EndLine)) (q, rest) \<noteq> []) =
     ((q = None \<or> q = Some 10) \<and>
      (\<exists>u post. rest = u @ post \<and> equal_fold u w \<and> (post = [] \<or> hd post = 10)))"
proof -
  have e: "(st' \<in> set (run EndLine st)) = (st' = st \<and> (snd st = [] \<or> hd (snd st) = 10))"
    for st st'
    by (cases "snd st") auto
  have b: "(st' \<in> set (run BeginLine st)) = (st' = st \<and> (fst st = None \<or> fst st = Some 10))"
    for st st'
    by auto
  show ?thesis
    unfolding nonempty_iff mem_Concat in_LiteralFold e b equal_fold_def
    apply (rule iffI)
     apply auto[1]
    apply (elim exE conjE)
    apply simp
    apply blast
    done
qed

lemma MatchString_PoolLicenseType:
  "MatchString re_PoolLicenseType v = (\<exists>u. between_newlines u v \<and> spec_PoolLicenseType u)"
proof -
  have alt: "(run (Alternate a b) st \<noteq> []) = (run a st \<noteq> [] \<or> run b st \<noteq> [])" for a b st
    by simp
  have pre: "(after None pre = None \<or> after None pre = Some 10) = (pre = [] \<or> last pre = 10)"
    for pre
    by (auto simp: after_def)
  show ?thesis
    unfolding re_PoolLicenseType_def MatchString_iff alt run_line_fold pre
      between_newlines_def spec_PoolLicenseType_def
    by (auto; blast)
qed

text \<open>Evaluating a match on a given string.\<close>

lemmas eval_match = MatchString_def run.simps(9) in_class_def str_def

lemma type_switch_string: "type_switch who (GoString v) = ([v], [])"
  by (simp add: type_switch_def)

lemma Len_Intersection:
  assumes "distinct (map fst valid)" "distinct (map fst s)"
  shows "(Len (Intersection valid s) \<noteq> Len s) = (\<not> set (map fst s) \<subseteq> set (map fst valid))"
proof -
  let ?A = "set (map fst valid)" and ?B = "set (map fst s)"
  have "(\<lambda>(k, v). k \<in> ?B) = (\<lambda>k. k \<in> ?B) \<circ> (fst :: int \<times> gostring \<Rightarrow> int)"
    by (simp add: fun_eq_iff)
  then have "length (filter (\<lambda>(k, v). k \<in> ?B) valid)
          = length (filter (\<lambda>k. k \<in> ?B) (map fst valid))"
    by (simp only: filter_map length_map)
  also have "\<dots> = card (set (filter (\<lambda>k. k \<in> ?B) (map fst valid)))"
    using assms(1) by (intro distinct_card [symmetric] distinct_filter)
  also have "set (filter (\<lambda>k. k \<in> ?B) (map fst valid)) = ?A \<inter> ?B" by auto
  finally have l: "Len (Intersection valid s) = card (?A \<inter> ?B)"
    by (simp add: Len_def Intersection_def)
  have "length (map fst s) = card ?B" using assms(2) by (rule distinct_card [symmetric])
  then have r: "Len s = card ?B" by (simp add: Len_def)
  have "(card (?A \<inter> ?B) = card ?B) = (?B \<subseteq> ?A)"
  proof
    assume "card (?A \<inter> ?B) = card ?B"
    moreover have "?A \<inter> ?B \<subseteq> ?B" by blast
    ultimately have "?A \<inter> ?B = ?B"
      by (simp add: card_subset_eq)
    then show "?B \<subseteq> ?A" by blast
  next
    assume "?B \<subseteq> ?A"
    then have "?A \<inter> ?B = ?B" by blast
    then show "card (?A \<inter> ?B) = card ?B" by simp
  qed
  then show ?thesis by (simp only: l r)
qed

lemmas eval_hash = HashString_def ChecksumIEEE_def crc32_update_def crc32_shift_def utf8_def
  str_def

lemma Client_authenticated:
  assumes "Address c \<noteq> []" "Username c \<noteq> []" "Password c \<noteq> []" "authenticated lib c h"
  shows "Client lib c =
          (case validateConnection lib h of
             (None, log2) \<Rightarrow> ((Some h, None),
                 Println ''[INFO] Initializing BigIP connection'' #
                 (if LoginReference c \<noteq> [] then [Call_NewTokenSession] else [Call_NewSession])
                 @ log2)
           | (Some err, log2) \<Rightarrow> ((None, Some err),
                 Println ''[INFO] Initializing BigIP connection'' #
                 (if LoginReference c \<noteq> [] then [Call_NewTokenSession] else [Call_NewSession])
                 @ log2))"
  using assms
  by (auto simp: Client_def authenticated_def Let_def split: sum.splits option.splits prod.splits)

section \<open>The pool member validator\<close>

text \<open>
  C1, as the code has it: given a single string, the pool member validator returns no
  warning; a value with at least two colons is checked against the path shape, any other
  value against the host-or-ip:port shape, and a value that fails its check gets one error.
  \<^verbatim>\<open>1.1.1.1:80\<close> is accepted. \<^verbatim>\<open>/Common/node1:80\<close> has one colon, is checked
  against the host-or-ip:port shape and is rejected, as are \<^verbatim>\<open>1.1.1.1\<close> and
  \<^verbatim>\<open>/Common/node1\<close>.
\<close>

theorem validatePoolMemberName_rules:
  "validatePoolMemberName (GoString v) field =
     ([], if count_list v (of_char CHR '':'') \<ge> 2
          then (if member_path_form v then []
                else [Errorf ''%q must match /Partition/Node_Name:Port and contain letters, numbers or [:._-]. e.g. /Common/node1:80''
                        [Quoted field]])
          else (if member_address_form v then []
                else [Errorf ''%q must match Node-address:Port and Node Address is IP/FQDN. e.g. 1.1.1.1:80/www.google.com:80''
                        [Quoted field]]))
   \<and> validatePoolMemberName (GoString (str ''1.1.1.1:80'')) field = ([], [])
   \<and> validatePoolMemberName (GoString (str ''/Common/node1:80'')) field =
       ([], [Errorf ''%q must match Node-address:Port and Node Address is IP/FQDN. e.g. 1.1.1.1:80/www.google.com:80''
               [Quoted field]])
   \<and> validatePoolMemberName (GoString (str ''1.1.1.1'')) field =
       ([], [Errorf ''%q must match Node-address:Port and Node Address is IP/FQDN. e.g. 1.1.1.1:80/www.google.com:80''
               [Quoted field]])
   \<and> validatePoolMemberName (GoString (str ''/Common/node1'')) field =
       ([], [Errorf ''%q must match Node-address:Port and Node Address is IP/FQDN. e.g. 1.1.1.1:80/www.google.com:80''
               [Quoted field]])"
proof -
  have general: "validatePoolMemberName (GoString w) field =
     ([], if count_list w (of_char CHR '':'') \<ge> 2
          then (if MatchString re_PoolMemberPath w then []
                else [Errorf ''%q must match /Partition/Node_Name:Port and contain letters, numbers or [:._-]. e.g. /Common/node1:80''
                        [Quoted field]])
          else (if MatchString re_PoolMemberAddress w then []
                else [Errorf ''%q must match Node-address:Port and Node Address is IP/FQDN. e.g. 1.1.1.1:80/www.google.com:80''
                        [Quoted field]]))" for w
    by (simp add: validatePoolMemberName_def type_switch_string)
  have 1: "MatchString re_PoolMemberAddress (str ''1.1.1.1:80'')"
    by (simp add: eval_match re_PoolMemberAddress_def cls_partition_def cls_digit_def)
  have 2: "\<not> MatchString re_PoolMemberAddress (str ''/Common/node1:80'')"
    by (simp add: eval_match re_PoolMemberAddress_def cls_partition_def cls_digit_def)
  have 3: "\<not> MatchString re_PoolMemberAddress (str ''1.1.1.1'')"
    by (simp add: eval_match re_PoolMemberAddress_def cls_partition_def cls_digit_def)
  have 4: "\<not> MatchString re_PoolMemberAddress (str ''/Common/node1'')"
    by (simp add: eval_match re_PoolMemberAddress_def cls_partition_def cls_digit_def)
  have c: "count_list (str ''1.1.1.1:80'') 58 = 1"
      "count_list (str ''/Common/node1:80'') 58 = 1"
      "count_list (str ''1.1.1.1'') 58 = 0"
      "count_list (str ''/Common/node1'') 58 = 0"
    by (simp_all add: str_def)
  have "validatePoolMemberName (GoString (str ''1.1.1.1:80'')) field = ([], [])"
    by (simp add: general 1 c)
  moreover have "validatePoolMemberName (GoString (str ''/Common/node1:80'')) field =
       ([], [Errorf ''%q must match Node-address:Port and Node Address is IP/FQDN. e.g. 1.1.1.1:80/www.google.com:80''
               [Quoted field]])"
    by (simp add: general 2 c)
  moreover have "validatePoolMemberName (GoString (str ''1.1.1.1'')) field =
       ([], [Errorf ''%q must match Node-address:Port and Node Address is IP/FQDN. e.g. 1.1.1.1:80/www.google.com:80''
               [Quoted field]])"
    by (simp add: general 3 c)
  moreover have "validatePoolMemberName (GoString (str ''/Common/node1'')) field =
       ([], [Errorf ''%q must match Node-address:Port and Node Address is IP/FQDN. e.g. 1.1.1.1:80/www.google.com:80''
               [Quoted field]])"
    by (simp add: general 4 c)
  ultimately show ?thesis
    by (simp only: general [of v] MatchString_PoolMemberPath MatchString_PoolMemberAddress
          simp_thms)
qed

text \<open>
  A path with two colons takes the first rule and is accepted; an address with one colon
  takes the second.
\<close>

theorem validatePoolMemberName_rules_witness:
  "count_list (str ''/Common/a:b:80'') (of_char CHR '':'') = 2
   \<and> validatePoolMemberName (GoString (str ''/Common/a:b:80'')) (str ''node'') = ([], [])
   \<and> validatePoolMemberName (GoString (str ''1.1.1.1:80'')) (str ''node'') = ([], [])"
proof -
  have "MatchString re_PoolMemberPath (str ''/Common/a:b:80'')"
    by (simp add: eval_match re_PoolMemberPath_def cls_partition_def cls_name_def cls_digit_def)
  then have "member_path_form (str ''/Common/a:b:80'')"
    by (simp only: MatchString_PoolMemberPath)
  moreover have "count_list (str ''/Common/a:b:80'') 58 = 2"
    by (simp add: str_def)
  ultimately show ?thesis
    using validatePoolMemberName_rules [of "str ''/Common/a:b:80''" "str ''node''"]
    by simp
qed

text \<open>
  C1 as it is stated fails: the validator does not accept \<^verbatim>\<open>/Common/node1:80\<close>.
\<close>

theorem validatePoolMemberName_counterexample:
  "snd (validatePoolMemberName (GoString (str ''/Common/node1:80'')) (str ''node'')) \<noteq> []"
proof -
  have "\<not> MatchString re_PoolMemberAddress (str ''/Common/node1:80'')"
    by (simp add: eval_match re_PoolMemberAddress_def cls_partition_def cls_digit_def)
  moreover have "count_list (str ''/Common/node1:80'') 58 = 1"
    by (simp add: str_def)
  ultimately show ?thesis
    by (simp add: validatePoolMemberName_def type_switch_string)
qed

section \<open>The partition name validator\<close>




section \<open>The F5 object path validator\<close>

text \<open>
  C5, as the code has it: given a string, the F5 object path validator returns no warning,
  and no error exactly when the string is \<^verbatim>\<open>/Partition/Name\<close> with a non-empty
  Partition of ASCII letters, digits and \<^verbatim>\<open>. _ -\<close> and a non-empty Name of ASCII
  letters, digits and \<^verbatim>\<open>. _ - :\<close>; any other string gets one error. It accepts
  \<^verbatim>\<open>/Common/my-pool\<close> and rejects \<^verbatim>\<open>Common/my-pool\<close> and \<^verbatim>\<open>/Common\<close>.
\<close>

theorem validateF5Name_form:
  "validateF5Name (GoString v) field =
     ([], if path_form partition_char spec_name_char v then []
          else [Errorf ''%q must match /Partition/Name and contain letters, numbers or [._-:]. e.g. /Common/my-pool''
                  [Quoted field]])
   \<and> snd (validateF5Name (GoString (str ''/Common/my-pool'')) field) = []
   \<and> snd (validateF5Name (GoString (str ''Common/my-pool'')) field) \<noteq> []
   \<and> snd (validateF5Name (GoString (str ''/Common'')) field) \<noteq> []"
proof -
  have "MatchString re_F5Name (str ''/Common/my-pool'')"
    by (simp add: eval_match re_F5Name_def cls_partition_def cls_name_def)
  moreover have "\<not> MatchString re_F5Name (str ''Common/my-pool'')"
    by (simp add: eval_match re_F5Name_def cls_partition_def cls_name_def)
  moreover have "\<not> MatchString re_F5Name (str ''/Common'')"
    by (simp add: eval_match re_F5Name_def cls_partition_def cls_name_def)
  ultimately show ?thesis
    by (simp add: validateF5Name_def type_switch_string check_values_single
          MatchString_F5Name [symmetric])
qed

theorem validateF5Name_form_witness:
  "path_form partition_char spec_name_char (str ''/Common/my-pool'')
   \<and> validateF5Name (GoString (str ''/Common/my-pool'')) (str ''name'') = ([], [])"
proof -
  have "str ''/Common/my-pool'' = str ''/'' @ str ''Common'' @ str ''/'' @ str ''my-pool''"
    by (simp add: str_def)
  moreover have "list_all partition_char (str ''Common'')"
      "list_all spec_name_char (str ''my-pool'')"
    by (simp_all add: str_def partition_char_def spec_name_char_def letter_or_digit_def)
  moreover have "str ''Common'' \<noteq> []" "str ''my-pool'' \<noteq> []"
    by (simp_all add: str_def)
  ultimately have "path_form partition_char spec_name_char (str ''/Common/my-pool'')"
    unfolding path_form_def by blast
  then show ?thesis
    using validateF5Name_form [of "str ''/Common/my-pool''" "str ''name''"] by simp
qed

text \<open>
  C5 as it is stated fails: \<^verbatim>\<open>/a:b/c\<close> has both segments drawn from letters, digits
  and \<^verbatim>\<open>. _ - :\<close>, and is rejected, for the colon in its Partition.
\<close>

theorem validateF5Name_counterexample:
  "spec_F5Name (str ''/a:b/c'')
   \<and> validateF5Name (GoString (str ''/a:b/c'')) (str ''name'') =
       ([], [Errorf ''%q must match /Partition/Name and contain letters, numbers or [._-:]. e.g. /Common/my-pool''
               [Quoted (str ''name'')]])"
proof -
  have "str ''/a:b/c'' = str ''/'' @ str ''a:b'' @ str ''/'' @ str ''c''"
    by (simp add: str_def)
  moreover have "list_all spec_name_char (str ''a:b'')" "list_all spec_name_char (str ''c'')"
    by (simp_all add: str_def spec_name_char_def letter_or_digit_def)
  moreover have "str ''a:b'' \<noteq> []" "str ''c'' \<noteq> []"
    by (simp_all add: str_def)
  ultimately have "spec_F5Name (str ''/a:b/c'')"
    unfolding spec_F5Name_def path_form_def by blast
  moreover have "\<not> MatchString re_F5Name (str ''/a:b/c'')"
    by (simp add: eval_match re_F5Name_def cls_partition_def cls_name_def)
  ultimately show ?thesis
    by (simp add: validateF5Name_def type_switch_string check_values_single)
qed

section \<open>The pool license type validator\<close>

text \<open>
  C6, as the code has it: given a string, the pool license type validator returns no
  warning, and no error exactly when some whole line of the string equals
  \<^verbatim>\<open>Utility\<close> or \<^verbatim>\<open>regkey\<close> under case-insensitive comparison; any other
  string gets one error.
\<close>

theorem validatePoolLicenseType_lines:
  "validatePoolLicenseType (GoString v) field =
     ([], if \<exists>u. between_newlines u v \<and> spec_PoolLicenseType u then []
          else [Errorf ''%q must match as Utility (or) Regkey'' [Quoted field]])"
  by (simp add: validatePoolLicenseType_def type_switch_string check_values_single
        MatchString_PoolLicenseType)

theorem validatePoolLicenseType_lines_witness:
  "between_newlines (str ''REGKEY'') (str ''REGKEY'')
   \<and> spec_PoolLicenseType (str ''REGKEY'')
   \<and> validatePoolLicenseType (GoString (str ''REGKEY'')) (str ''license_type'') = ([], [])"
proof -
  have "str ''REGKEY'' = [] @ str ''REGKEY'' @ []" by simp
  then have b: "between_newlines (str ''REGKEY'') (str ''REGKEY'')"
    unfolding between_newlines_def by blast
  have s: "spec_PoolLicenseType (str ''REGKEY'')"
    by (simp add: spec_PoolLicenseType_def equal_fold_def str_def fold_eq_def fold_orbit_def)
  from b s have "\<exists>u. between_newlines u (str ''REGKEY'') \<and> spec_PoolLicenseType u"
    by blast
  then show ?thesis
    using b s validatePoolLicenseType_lines [of "str ''REGKEY''" "str ''license_type''"]
    by simp
qed

text \<open>
  C6 as it is stated fails: the two lines \<^verbatim>\<open>x\<close> and \<^verbatim>\<open>regkey\<close>, as one
  string, equal neither word under case-insensitive comparison, and are accepted.
\<close>

theorem validatePoolLicenseType_counterexample:
  "\<not> spec_PoolLicenseType (str ''x'' @ [10] @ str ''regkey'')
   \<and> validatePoolLicenseType (GoString (str ''x'' @ [10] @ str ''regkey''))
        (str ''license_type'') = ([], [])"
proof -
  have "MatchString re_PoolLicenseType (str ''x'' @ [10] @ str ''regkey'')"
    by (simp add: eval_match re_PoolLicenseType_def fold_eq_def fold_orbit_def)
  moreover have "\<not> spec_PoolLicenseType (str ''x'' @ [10] @ str ''regkey'')"
    by (simp add: spec_PoolLicenseType_def equal_fold_def str_def)
  ultimately show ?thesis
    by (simp add: validatePoolLicenseType_def type_switch_string check_values_single)
qed

section \<open>The enabled/disabled validator\<close>

text \<open>
  C7: given a string, the enabled/disabled validator returns no warning and no error
  exactly for \<^verbatim>\<open>enabled\<close> and \<^verbatim>\<open>disabled\<close>, and one error for every other
  string; \<^verbatim>\<open>Enabled\<close>, \<^verbatim>\<open>on\<close> and the empty string get one error each.
\<close>

theorem validateEnabledDisabled_exact:
  "validateEnabledDisabled (GoString v) field =
     ([], if v = str ''enabled'' \<or> v = str ''disabled'' then []
          else [Errorf ''%q must match as enabled or disabled'' [Quoted field]])
   \<and> validateEnabledDisabled (GoString (str ''Enabled'')) field =
       ([], [Errorf ''%q must match as enabled or disabled'' [Quoted field]])
   \<and> validateEnabledDisabled (GoString (str ''on'')) field =
       ([], [Errorf ''%q must match as enabled or disabled'' [Quoted field]])
   \<and> validateEnabledDisabled (GoString []) field =
       ([], [Errorf ''%q must match as enabled or disabled'' [Quoted field]])"
proof -
  have general: "validateEnabledDisabled (GoString w) field =
     ([], if w = str ''enabled'' \<or> w = str ''disabled'' then []
          else [Errorf ''%q must match as enabled or disabled'' [Quoted field]])" for w
    by (simp add: validateEnabledDisabled_def type_switch_string check_values_single
          MatchString_EnabledDisabled)
  show ?thesis
    by (simp add: general) (simp add: str_def)
qed

theorem validateEnabledDisabled_exact_witness:
  "validateEnabledDisabled (GoString (str ''enabled'')) (str ''state'') = ([], [])
   \<and> validateEnabledDisabled (GoString (str ''disabled'')) (str ''state'') = ([], [])
   \<and> validateEnabledDisabled (GoString (str ''on'')) (str ''state'') =
       ([], [Errorf ''%q must match as enabled or disabled'' [Quoted (str ''state'')]])"
  using validateEnabledDisabled_exact [of "str ''enabled''" "str ''state''"]
        validateEnabledDisabled_exact [of "str ''disabled''" "str ''state''"]
  by simp

section \<open>The set-membership validator\<close>

text \<open>
  What the validator decides: for an allowed set and an input set, it returns no warning,
  no error when every hash code of the input set is a code of the allowed set, and
  otherwise one error, which carries the field and the list of the input set.
\<close>

lemma validateSetValues_codes:
  assumes "distinct (map fst valid)" "distinct (map fst s)"
  shows "validateSetValues valid (SchemaSet s) field =
           Inr ([], if set (map fst s) \<subseteq> set (map fst valid) then []
                    else [Errorf ''%q can only contain %v'' [Quoted field, Listed (map snd s)]])"
  using Len_Intersection [OF assms] by (simp add: validateSetValues_def List_def)

text \<open>
  With \<^verbatim>\<open>a\<close>, \<^verbatim>\<open>b\<close> allowed and the input set \<^verbatim>\<open>a\<close>, \<^verbatim>\<open>c\<close>, whose codes
  differ, it returns one error, which lists the input set (\<^verbatim>\<open>c\<close> first, by code).
\<close>

lemma validateSetValues_example:
  "HashString (str ''a'') = 3904355907 \<and> HashString (str ''b'') = 1908338681
   \<and> HashString (str ''c'') = 112844655
   \<and> validateSetValues
        [(HashString (str ''b''), str ''b''), (HashString (str ''a''), str ''a'')]
        (SchemaSet [(HashString (str ''c''), str ''c''), (HashString (str ''a''), str ''a'')])
        field
       = Inr ([], [Errorf ''%q can only contain %v''
                     [Quoted field, Listed [str ''c'', str ''a'']]])"
proof -
  have h: "HashString (str ''a'') = 3904355907" "HashString (str ''b'') = 1908338681"
      "HashString (str ''c'') = 112844655"
    by (simp_all add: eval_hash)
  show ?thesis
    unfolding h by (simp add: validateSetValues_def List_def Len_def Intersection_def)
qed

text \<open>
  C8: the claim that the validator returns one error whenever some element of the input
  set is outside the allowed set fails on the code. \<^verbatim>\<open>plumless\<close> and
  \<^verbatim>\<open>buckeroo\<close> have the same CRC-32 checksum, 1306201125; with the allowed set
  holding \<^verbatim>\<open>plumless\<close> and the input set holding \<^verbatim>\<open>buckeroo\<close>, which is not
  allowed, the validator returns no error.
\<close>

theorem validateSetValues_collision:
  "HashString (str ''plumless'') = 1306201125
   \<and> HashString (str ''buckeroo'') = 1306201125
   \<and> str ''buckeroo'' \<notin> set (List [(HashString (str ''plumless''), str ''plumless'')])
   \<and> validateSetValues [(HashString (str ''plumless''), str ''plumless'')]
        (SchemaSet [(HashString (str ''buckeroo''), str ''buckeroo'')]) (str ''modules'')
       = Inr ([], [])"
proof -
  have h: "HashString (str ''plumless'') = 1306201125"
      "HashString (str ''buckeroo'') = 1306201125"
    by (simp_all add: eval_hash)
  have "str ''buckeroo'' \<noteq> str ''plumless''"
    by (simp add: str_def)
  then show ?thesis
    unfolding h by (simp add: validateSetValues_def List_def Len_def Intersection_def)
qed

section \<open>The session factory: required fields, liveness check, results\<close>

text \<open>
  C3: when the address, the user name or the password of the configuration is empty,
  \<open>Client\<close> returns no handle and the error "BigIP provider requires address, username
  and password", and its trace is empty: it has called neither the token login nor the
  session constructor nor the liveness check, and logged nothing.
\<close>

theorem Client_missing_field:
  "Address c = [] \<or> Username c = [] \<or> Password c = [] \<Longrightarrow>
   Client lib c =
     ((None, Some (Errorf ''BigIP provider requires address, username and password'' [])), [])"
  by (auto simp: Client_def)

theorem Client_missing_field_witness:
  "Username \<lparr>Address = str ''10.0.0.1'', Port = str ''443'', Username = [],
             Password = str ''secret'', LoginReference = [], ConfigOptions = ()\<rparr> = []
   \<and> Client \<lparr>NewTokenSession = (\<lambda>a p u w l opts. Inr (1::nat)),
              NewSession = (\<lambda>a p u w opts. 1),
              SelfIPs = (\<lambda>h. (Some [2::nat], None))\<rparr>
        \<lparr>Address = str ''10.0.0.1'', Port = str ''443'', Username = [],
         Password = str ''secret'', LoginReference = [], ConfigOptions = ()\<rparr>
     = ((None, Some (Errorf ''BigIP provider requires address, username and password'' [])), [])"
  using Client_missing_field
    [of "\<lparr>Address = str ''10.0.0.1'', Port = str ''443'', Username = [],
         Password = str ''secret'', LoginReference = [], ConfigOptions = ()\<rparr>"
        "\<lparr>NewTokenSession = (\<lambda>a p u w l opts. Inr (1::nat)),
          NewSession = (\<lambda>a p u w opts. 1),
          SelfIPs = (\<lambda>h. (Some [2::nat], None))\<rparr>"]
  by simp

text \<open>
  C2, as the code has it: for a configuration whose address, user name and password are
  not empty and for which authentication gives the session \<open>h\<close>, the liveness check
  decides the result. If \<^verbatim>\<open>SelfIPs\<close> returns an error, \<open>validateConnection\<close> returns
  it and \<open>Client\<close> returns it with no handle. If \<^verbatim>\<open>SelfIPs\<close> returns no error and
  a \<^verbatim>\<open>nil\<close> pointer, \<open>Client\<close> returns \<open>h\<close> with no error and logs one warning.
  If it returns no error and a pointer to a list, empty or not, \<open>Client\<close> returns \<open>h\<close>
  with no error and logs no warning.
\<close>

theorem Client_liveness_trichotomy:
  assumes "Address c \<noteq> []" "Username c \<noteq> []" "Password c \<noteq> []" "authenticated lib c h"
  shows "(\<forall>t err. SelfIPs lib h = (t, Some err) \<longrightarrow>
            fst (validateConnection lib h) = Some err
            \<and> fst (Client lib c) = (None, Some err))
       \<and> (SelfIPs lib h = (None, None) \<longrightarrow>
            fst (Client lib c) = (Some h, None)
            \<and> filter is_warning (snd (Client lib c))
                = [Printf ''[WARN] Could not validate connection to BigIP'' []])
       \<and> (\<forall>t. SelfIPs lib h = (Some t, None) \<longrightarrow>
            fst (Client lib c) = (Some h, None)
            \<and> filter is_warning (snd (Client lib c)) = [])"
  unfolding Client_authenticated [OF assms]
  by (auto simp: validateConnection_def split: option.splits)

text \<open>
  A basic session whose liveness check returns nothing and no error: the handle and one
  warning. A token session whose liveness check returns an error: the error.
\<close>

theorem Client_liveness_trichotomy_witness:
  "authenticated
      \<lparr>NewTokenSession = (\<lambda>a p u w l opts. Inr (1::nat)), NewSession = (\<lambda>a p u w opts. 1),
       SelfIPs = (\<lambda>h. (None :: nat list option, None))\<rparr>
      \<lparr>Address = str ''10.0.0.1'', Port = str ''443'', Username = str ''admin'',
       Password = str ''secret'', LoginReference = [], ConfigOptions = ()\<rparr> 1
   \<and> Client
      \<lparr>NewTokenSession = (\<lambda>a p u w l opts. Inr (1::nat)), NewSession = (\<lambda>a p u w opts. 1),
       SelfIPs = (\<lambda>h. (None :: nat list option, None))\<rparr>
      \<lparr>Address = str ''10.0.0.1'', Port = str ''443'', Username = str ''admin'',
       Password = str ''secret'', LoginReference = [], ConfigOptions = ()\<rparr>
     = ((Some 1, None),
        [Println ''[INFO] Initializing BigIP connection'', Call_NewSession, Call_SelfIPs 1,
         Printf ''[WARN] Could not validate connection to BigIP'' []])
   \<and> fst (Client
      \<lparr>NewTokenSession = (\<lambda>a p u w l opts. Inr (1::nat)), NewSession = (\<lambda>a p u w opts. 1),
       SelfIPs = (\<lambda>h. (None :: nat list option, Some (External ''timeout'')))\<rparr>
      \<lparr>Address = str ''10.0.0.1'', Port = str ''443'', Username = str ''admin'',
       Password = str ''secret'', LoginReference = str ''tmos'', ConfigOptions = ()\<rparr>)
     = (None, Some (External ''timeout''))"
  using Client_liveness_trichotomy
    [of "\<lparr>Address = str ''10.0.0.1'', Port = str ''443'', Username = str ''admin'',
       Password = str ''secret'', LoginReference = [], ConfigOptions = ()\<rparr>"
       "\<lparr>NewTokenSession = (\<lambda>a p u w l opts. Inr (1::nat)), NewSession = (\<lambda>a p u w opts. 1),
       SelfIPs = (\<lambda>h. (None :: nat list option, None))\<rparr>" 1]
    Client_liveness_trichotomy
    [of "\<lparr>Address = str ''10.0.0.1'', Port = str ''443'', Username = str ''admin'',
       Password = str ''secret'', LoginReference = str ''tmos'', ConfigOptions = ()\<rparr>"
       "\<lparr>NewTokenSession = (\<lambda>a p u w l opts. Inr (1::nat)), NewSession = (\<lambda>a p u w opts. 1),
       SelfIPs = (\<lambda>h. (None :: nat list option, Some (External ''timeout'')))\<rparr>" 1]
  by (simp add: authenticated_def str_def Client_def validateConnection_def)

text \<open>
  C2 as it is stated fails: when \<^verbatim>\<open>SelfIPs\<close> returns no error and a pointer to an
  empty list, \<open>Client\<close> returns the handle and logs no warning.
\<close>

theorem Client_liveness_counterexample:
  "SelfIPs
      \<lparr>NewTokenSession = (\<lambda>a p u w l opts. Inr (1::nat)), NewSession = (\<lambda>a p u w opts. 1),
       SelfIPs = (\<lambda>h. (Some ([] :: nat list), None))\<rparr> 1 = (Some [], None)
   \<and> Client
      \<lparr>NewTokenSession = (\<lambda>a p u w l opts. Inr (1::nat)), NewSession = (\<lambda>a p u w opts. 1),
       SelfIPs = (\<lambda>h. (Some ([] :: nat list), None))\<rparr>
      \<lparr>Address = str ''10.0.0.1'', Port = str ''443'', Username = str ''admin'',
       Password = str ''secret'', LoginReference = [], ConfigOptions = ()\<rparr>
     = ((Some 1, None),
        [Println ''[INFO] Initializing BigIP connection'', Call_NewSession, Call_SelfIPs 1])"
  by (simp add: str_def Client_def validateConnection_def)


text \<open>
  C10: for every configuration and every behaviour of the library, \<open>Client\<close> returns a
  handle exactly when it returns no error.
\<close>

theorem Client_handle_xor_error:
  "(fst (fst (Client lib c)) \<noteq> None) = (snd (fst (Client lib c)) = None)"
  by (auto simp: Client_def validateConnection_def Let_def
           split: sum.splits option.splits prod.splits)

theorem Client_handle_xor_error_witness:
  "fst (fst (Client
      \<lparr>NewTokenSession = (\<lambda>a p u w l opts. Inr (1::nat)), NewSession = (\<lambda>a p u w opts. 1),
       SelfIPs = (\<lambda>h. (Some [2::nat], None))\<rparr>
      \<lparr>Address = str ''10.0.0.1'', Port = str ''443'', Username = str ''admin'',
       Password = str ''secret'', LoginReference = [], ConfigOptions = ()\<rparr>)) = Some 1
   \<and> snd (fst (Client
      \<lparr>NewTokenSession = (\<lambda>a p u w l opts. Inr (1::nat)), NewSession = (\<lambda>a p u w opts. 1),
       SelfIPs = (\<lambda>h. (Some [2::nat], None))\<rparr>
      \<lparr>Address = str ''10.0.0.1'', Port = str ''443'', Username = str ''admin'',
       Password = str ''secret'', LoginReference = [], ConfigOptions = ()\<rparr>)) = None"
  using Client_handle_xor_error
    [of "\<lparr>NewTokenSession = (\<lambda>a p u w l opts. Inr (1::nat)), NewSession = (\<lambda>a p u w opts. 1),
       SelfIPs = (\<lambda>h. (Some [2::nat], None))\<rparr>"
       "\<lparr>Address = str ''10.0.0.1'', Port = str ''443'', Username = str ''admin'',
       Password = str ''secret'', LoginReference = [], ConfigOptions = ()\<rparr>"]
  by (simp add: str_def Client_def validateConnection_def)

end
